theory Spec2Isabelle
  imports Main "HOL-Library.Char_ord" "HOL-Library.List_Lexorder"
begin

section \<open>Data model (models.py)\<close>

text \<open>
  A \<open>pathlib.Path\<close> is modelled by its string form, a \<open>datetime\<close> by its position
  on the time line (an integer); equality of the model values is Python's \<open>==\<close>.
  Neither a \<open>Path\<close> nor a \<open>datetime\<close> nor a dataclass instance is ever falsy, so
  the truth tests \<open>if info.capture_datetime\<close> of the source are tests against \<open>None\<close>.
\<close>

type_synonym path = string
type_synonym datetime = int

record RawFileInfo =
  path :: path
  basename :: string
  capture_datetime :: "datetime option"
  file_size :: int

section \<open>The index (indexer.py, class RawFileIndex)\<close>

text \<open>
  A Python \<open>dict\<close> whose values are lists is an association list in insertion
  order of its keys: the iteration order of \<open>dict.items()\<close> and \<open>dict.values()\<close>.
\<close>

type_synonym ('k, 'v) pydict = "('k \<times> 'v list) list"

record RawFileIndex =
  by_basename :: "(string, RawFileInfo) pydict"
  by_datetime :: "(datetime, RawFileInfo) pydict"
  source_directory :: "path option"
  last_updated :: "datetime option"
  file_count :: int

definition new_index :: RawFileIndex where
  "new_index = \<lparr>by_basename = [], by_datetime = [], source_directory = None,
                 last_updated = None, file_count = 0\<rparr>"

text \<open>\<open>if k not in d: d[k] = []\<close> followed by \<open>d[k].append(v)\<close>.\<close>

fun dict_append :: "'k \<Rightarrow> 'v \<Rightarrow> ('k, 'v) pydict \<Rightarrow> ('k, 'v) pydict" where
  "dict_append k v [] = [(k, [v])]"
| "dict_append k v ((k', vs) # d) =
     (if k' = k then (k', vs @ [v]) # d else (k', vs) # dict_append k v d)"

text \<open>\<open>d.get(k, [])\<close>.\<close>

definition dict_get :: "('k, 'v) pydict \<Rightarrow> 'k \<Rightarrow> 'v list" where
  "dict_get d k = (case map_of d k of None \<Rightarrow> [] | Some vs \<Rightarrow> vs)"

definition add :: "RawFileInfo \<Rightarrow> RawFileIndex \<Rightarrow> RawFileIndex" where
  "add info index =
     index\<lparr>by_basename := dict_append (basename info) info (by_basename index),
           by_datetime := (case capture_datetime info of
                             None \<Rightarrow> by_datetime index
                           | Some dt \<Rightarrow> dict_append dt info (by_datetime index)),
           file_count := file_count index + 1\<rparr>"

text \<open>
  One of the two loops of \<open>remove\<close>: every bucket is filtered in place; a bucket that
  became shorter sets the flag, and its key is deleted when nothing is left in it.
  The result is the dictionary after the loop and the flag.
\<close>

fun remove_from :: "path \<Rightarrow> ('k, RawFileInfo) pydict \<Rightarrow> ('k, RawFileInfo) pydict \<times> bool" where
  "remove_from file_path [] = ([], False)"
| "remove_from file_path ((k, infos) # d) =
     (let infos' = filter (\<lambda>info. path info \<noteq> file_path) infos;
          rest = remove_from file_path d
      in if length infos' < length infos
         then (if infos' = [] then fst rest else (k, infos') # fst rest, True)
         else ((k, infos') # fst rest, snd rest))"

definition remove_file :: "path \<Rightarrow> RawFileIndex \<Rightarrow> bool \<times> RawFileIndex" where
  "remove_file file_path index =
     (let b = remove_from file_path (by_basename index);
          d = remove_from file_path (by_datetime index);
          removed = (snd b \<or> snd d)
      in (removed,
          index\<lparr>by_basename := fst b, by_datetime := fst d,
                file_count := (if removed then file_count index - 1 else file_count index)\<rparr>))"

definition get_all_files :: "RawFileIndex \<Rightarrow> RawFileInfo list" where
  "get_all_files index = concat (map snd (by_basename index))"

text \<open>A history of calls on an index that starts empty.\<close>

datatype index_op = Add RawFileInfo | Remove path

fun apply_op :: "RawFileIndex \<Rightarrow> index_op \<Rightarrow> RawFileIndex" where
  "apply_op index (Add info) = add info index"
| "apply_op index (Remove p) = snd (remove_file p index)"

definition run_ops :: "index_op list \<Rightarrow> RawFileIndex" where
  "run_ops ops = foldl apply_op new_index ops"

definition buckets_ok :: "('k, 'v) pydict \<Rightarrow> bool" where
  "buckets_ok d \<longleftrightarrow> distinct (map fst d) \<and> [] \<notin> set (map snd d)"

text \<open>Two records that share a path, as a cache file with a repeated entry yields them.\<close>

definition dup_a :: RawFileInfo where
  "dup_a = \<lparr>path = ''/raw/IMG_1.CR2'', basename = ''img_1'',
            capture_datetime = Some 100, file_size = 10\<rparr>"

definition dup_b :: RawFileInfo where
  "dup_b = \<lparr>path = ''/raw/IMG_1.CR2'', basename = ''img_1'',
            capture_datetime = None, file_size = 20\<rparr>"

definition other_c :: RawFileInfo where
  "other_c = \<lparr>path = ''/raw/IMG_2.NEF'', basename = ''img_2'',
              capture_datetime = Some 200, file_size = 30\<rparr>"

section \<open>Matching (matcher.py)\<close>

record JpegFileInfo =
  jpath :: path
  jbasename :: string
  jcapture_datetime :: "datetime option"

record MatchResult =
  jpeg_path :: path
  raw_path :: path
  match_method :: string

text \<open>
  \<open>str.lower()\<close> on ASCII text: the letters A to Z are mapped to a to z, every other
  character is kept.
\<close>

definition lower_char :: "char \<Rightarrow> char" where
  "lower_char c =
     (case map_of (zip ''ABCDEFGHIJKLMNOPQRSTUVWXYZ'' ''abcdefghijklmnopqrstuvwxyz'') c of
        None \<Rightarrow> c | Some l \<Rightarrow> l)"

definition lower :: "string \<Rightarrow> string" where
  "lower s = map lower_char s"

definition find_by_basename :: "RawFileIndex \<Rightarrow> string \<Rightarrow> RawFileInfo list" where
  "find_by_basename index name = dict_get (by_basename index) (lower name)"

text \<open>
  \<open>Matcher._find_matching_raw\<close>. The list of basename candidates is tested for
  emptiness first; \<open>first_raw\<close> is \<open>basename_matches[0]\<close>.
\<close>

definition find_matching_raw :: "RawFileIndex \<Rightarrow> JpegFileInfo \<Rightarrow> MatchResult option" where
  "find_matching_raw index jpeg_info =
     (let basename_matches = find_by_basename index (jbasename jpeg_info)
      in case basename_matches of
           [] \<Rightarrow> None
         | first_raw # _ \<Rightarrow>
             (case jcapture_datetime jpeg_info of
                Some dt \<Rightarrow>
                  (let datetime_matches =
                         filter (\<lambda>raw_info. capture_datetime raw_info \<noteq> None \<and>
                                            capture_datetime raw_info = Some dt) basename_matches
                   in case datetime_matches of
                        selected_raw # _ \<Rightarrow>
                          Some \<lparr>jpeg_path = jpath jpeg_info, raw_path = path selected_raw,
                                match_method = ''basename_and_datetime''\<rparr>
                      | [] \<Rightarrow> None)
              | None \<Rightarrow>
                  Some \<lparr>jpeg_path = jpath jpeg_info, raw_path = path first_raw,
                        match_method = ''basename_only''\<rparr>))"

text \<open>
  The records an index should hold after a history of calls, in the order in which they
  were added: the reference against which insertion order is stated.
\<close>

fun live_step :: "RawFileInfo list \<Rightarrow> index_op \<Rightarrow> RawFileInfo list" where
  "live_step rs (Add info) = rs @ [info]"
| "live_step rs (Remove p) = filter (\<lambda>r. path r \<noteq> p) rs"

definition live_records :: "index_op list \<Rightarrow> RawFileInfo list" where
  "live_records ops = foldl live_step [] ops"

definition refines :: "RawFileIndex \<Rightarrow> RawFileInfo list \<Rightarrow> bool" where
  "refines index rs \<longleftrightarrow>
     buckets_ok (by_basename index) \<and>
     (\<forall>k. dict_get (by_basename index) k = filter (\<lambda>r. basename r = k) rs)"

text \<open>Example JPEG records.\<close>

definition jpeg_exact :: JpegFileInfo where
  "jpeg_exact = \<lparr>jpath = ''/jpg/IMG_1.JPG'', jbasename = ''img_1'', jcapture_datetime = Some 100\<rparr>"

definition jpeg_off :: JpegFileInfo where
  "jpeg_off = \<lparr>jpath = ''/jpg/IMG_1.JPG'', jbasename = ''img_1'', jcapture_datetime = Some 101\<rparr>"

definition jpeg_undated :: JpegFileInfo where
  "jpeg_undated = \<lparr>jpath = ''/jpg/IMG_1.JPG'', jbasename = ''img_1'', jcapture_datetime = None\<rparr>"

section \<open>Paths and the scanner (file_scanner.py, path_validator.py)\<close>

text \<open>
  \<open>Path.name\<close> is the text after the last separator. \<open>Path.suffix\<close> is the text from
  the last dot of the name on, and empty when the name has no dot, starts with its only
  dot or ends in a dot; \<open>Path.stem\<close> is the name without the suffix.
\<close>

definition path_name :: "path \<Rightarrow> string" where
  "path_name p = rev (takeWhile (\<lambda>c. c \<noteq> CHR ''/'') (rev p))"

definition path_suffix :: "path \<Rightarrow> string" where
  "path_suffix p =
     (let name = path_name p;
          after = rev (takeWhile (\<lambda>c. c \<noteq> CHR ''.'') (rev name))
      in if CHR ''.'' \<in> set name \<and> after \<noteq> [] \<and> length after + 1 < length name
         then CHR ''.'' # after else [])"

definition path_stem :: "path \<Rightarrow> string" where
  "path_stem p =
     (let name = path_name p
      in take (length name - length (path_suffix p)) name)"

definition upper_char :: "char \<Rightarrow> char" where
  "upper_char c =
     (case map_of (zip ''abcdefghijklmnopqrstuvwxyz'' ''ABCDEFGHIJKLMNOPQRSTUVWXYZ'') c of
        None \<Rightarrow> c | Some u \<Rightarrow> u)"

definition upper :: "string \<Rightarrow> string" where
  "upper s = map upper_char s"

definition RAW_EXTENSIONS :: "string list" where
  "RAW_EXTENSIONS =
     [''.cr2'', ''.CR2'', ''.cr3'', ''.CR3'', ''.nef'', ''.NEF'', ''.arw'', ''.ARW'',
      ''.raf'', ''.RAF'', ''.orf'', ''.ORF'', ''.rw2'', ''.RW2'', ''.pef'', ''.PEF'',
      ''.dng'', ''.DNG'', ''.rwl'', ''.RWL'', ''.3fr'', ''.3FR'', ''.iiq'', ''.IIQ'']"

definition JPEG_EXTENSIONS :: "string list" where
  "JPEG_EXTENSIONS = [''.jpg'', ''.JPG'', ''.jpeg'', ''.JPEG'']"

definition get_basename :: "path \<Rightarrow> string" where
  "get_basename file_path = lower (path_stem file_path)"

definition is_raw_file :: "path \<Rightarrow> bool" where
  "is_raw_file file_path \<longleftrightarrow> path_suffix file_path \<in> set RAW_EXTENSIONS"

definition is_jpeg_file :: "path \<Rightarrow> bool" where
  "is_jpeg_file file_path \<longleftrightarrow> path_suffix file_path \<in> set JPEG_EXTENSIONS"

text \<open>
  The state of the file system that the tool reads: the directories that exist and are
  readable, and the regular files with their size and with the capture time that the
  Exif reader finds in them (\<open>None\<close> when the file has none or the read fails).
  A path occurs once; of a repeated path the first entry counts.
\<close>

record filesystem =
  readable_dirs :: "path list"
  files :: "(path \<times> int \<times> datetime option) list"

datatype error =
    OSError
  | PermissionError
  | ValueError
  | RuntimeError
  | ValidationError
  | FileOperationError "error option"
  | ProcessingError "error option"

definition validate_directory :: "filesystem \<Rightarrow> path \<Rightarrow> error + unit" where
  "validate_directory fs directory =
     (if directory \<in> set (readable_dirs fs) then Inr () else Inl ValidationError)"

text \<open>
  \<open>directory.rglob('*')\<close> and \<open>directory.iterdir()\<close>, restricted to regular files (the
  scanner keeps only paths with \<open>is_file()\<close>), for a directory other than the root.
\<close>

definition is_below :: "path \<Rightarrow> path \<Rightarrow> bool" where
  "is_below directory p \<longleftrightarrow>
     length directory + 1 < length p \<and> take (length directory + 1) p = directory @ ''/''"

definition rglob_files :: "filesystem \<Rightarrow> path \<Rightarrow> path list" where
  "rglob_files fs directory = filter (is_below directory) (remdups (map fst (files fs)))"

definition iterdir_files :: "filesystem \<Rightarrow> path \<Rightarrow> path list" where
  "iterdir_files fs directory =
     filter (\<lambda>p. is_below directory p \<and> CHR ''/'' \<notin> set (drop (length directory + 1) p))
       (remdups (map fst (files fs)))"

text \<open>\<open>sorted\<close> on paths compares the lists of path components.\<close>

fun split_on :: "char \<Rightarrow> string \<Rightarrow> string list" where
  "split_on sep [] = [[]]"
| "split_on sep (c # cs) =
     (if c = sep then [] # split_on sep cs
      else (case split_on sep cs of part # parts \<Rightarrow> (c # part) # parts | [] \<Rightarrow> [[c]]))"

definition path_parts :: "path \<Rightarrow> string list" where
  "path_parts p = split_on CHR ''/'' p"

definition scan_files :: "string list \<Rightarrow> filesystem \<Rightarrow> path \<Rightarrow> bool \<Rightarrow> error + path list" where
  "scan_files extensions fs directory recursive =
     (case validate_directory fs directory of
        Inl e \<Rightarrow> Inl e
      | Inr _ \<Rightarrow>
          Inr (sort_key path_parts
                 (filter (\<lambda>file_path. path_suffix file_path \<in> set extensions)
                    (if recursive then rglob_files fs directory
                     else iterdir_files fs directory))))"

definition scan_raw_files :: "filesystem \<Rightarrow> path \<Rightarrow> bool \<Rightarrow> error + path list" where
  "scan_raw_files = scan_files RAW_EXTENSIONS"

definition scan_jpeg_files :: "filesystem \<Rightarrow> path \<Rightarrow> bool \<Rightarrow> error + path list" where
  "scan_jpeg_files = scan_files JPEG_EXTENSIONS"

text \<open>The extensions that the scanner documents, in lower case and without the dot.\<close>

definition raw_extension_names :: "string list" where
  "raw_extension_names =
     [''cr2'', ''cr3'', ''nef'', ''arw'', ''raf'', ''orf'', ''rw2'', ''pef'', ''dng'',
      ''rwl'', ''3fr'', ''iiq'']"

definition jpeg_extension_names :: "string list" where
  "jpeg_extension_names = [''jpg'', ''jpeg'']"

definition mixed_case_dir :: filesystem where
  "mixed_case_dir =
     \<lparr>readable_dirs = [''/d''],
      files = [(''/d/test.cr2'', 10, None), (''/d/test.Cr2'', 10, None),
               (''/d/test.Jpg'', 5, None), (''/d/test.JPG'', 5, None)]\<rparr>"

section \<open>Copying (copier.py)\<close>

record CopyResult =
  success :: int
  skipped :: int
  failed :: int
  errors :: "(path \<times> string) list"

text \<open>
  The operating system as the copier uses it, over a state \<open>'s\<close> of the file system:
  every call returns what Python returns or the exception it raises, and the calls
  that write also return the state they leave behind, whether they raise or not.
  Calls to the logger and to the progress logger are taken to return normally and are
  left out. The texts of the error messages are Japanese in the source; the model
  keeps an English rendering, which like the original is never the empty string.
\<close>

record 's os_ops =
  mkdir :: "'s \<Rightarrow> path \<Rightarrow> error option \<times> 's"
  exists :: "'s \<Rightarrow> path \<Rightarrow> bool"
  stat_size :: "'s \<Rightarrow> path \<Rightarrow> error + int"
  disk_free :: "'s \<Rightarrow> path \<Rightarrow> error + int"
  copy2 :: "'s \<Rightarrow> path \<Rightarrow> path \<Rightarrow> error option \<times> 's"

definition check_disk_space :: "'s os_ops \<Rightarrow> 's \<Rightarrow> path \<Rightarrow> int \<Rightarrow> bool" where
  "check_disk_space os s target_dir required_bytes =
     (case disk_free os s target_dir of
        Inl e \<Rightarrow> True
      | Inr free_bytes \<Rightarrow>
          (let safety_margin = 10 * 1024 * 1024
           in if free_bytes < required_bytes + safety_margin then False else True))"

definition copy_single_file_with_error ::
    "'s os_ops \<Rightarrow> MatchResult \<Rightarrow> path \<Rightarrow> 's \<Rightarrow> (error + string \<times> string option) \<times> 's" where
  "copy_single_file_with_error os match target_dir s =
     (let source_path = raw_path match;
          target_path = target_dir @ ''/'' @ path_name source_path
      in if \<not> exists os s source_path
         then (Inr (''failed'', Some ''source file does not exist''), s)
         else if exists os s target_path then (Inr (''skipped'', None), s)
         else if (case stat_size os s source_path of
                    Inl e \<Rightarrow> False
                  | Inr source_size \<Rightarrow> \<not> check_disk_space os s target_dir source_size)
         then (Inr (''failed'', Some ''not enough disk space''), s)
         else (case copy2 os s source_path target_path of
                 (None, s') \<Rightarrow> (Inr (''success'', None), s')
               | (Some PermissionError, s') \<Rightarrow>
                   (Inr (''failed'', Some ''permission error''), s')
               | (Some OSError, s') \<Rightarrow>
                   (Inr (''failed'', Some ''file operation error''), s')
               | (Some e, s') \<Rightarrow> (Inl e, s')))"

text \<open>One round of the loop of \<open>copy_files\<close>, on the counters and the error list.\<close>

definition copy_step ::
    "'s os_ops \<Rightarrow> path \<Rightarrow> CopyResult \<times> 's \<Rightarrow> MatchResult \<Rightarrow> CopyResult \<times> 's" where
  "copy_step os target_dir acc match =
     (case copy_single_file_with_error os match target_dir (snd acc) of
        (Inr (result, error_msg), s') \<Rightarrow>
          (if result = ''success'' then (fst acc)\<lparr>success := success (fst acc) + 1\<rparr>
           else if result = ''skipped'' then (fst acc)\<lparr>skipped := skipped (fst acc) + 1\<rparr>
           else (fst acc)\<lparr>failed := failed (fst acc) + 1,
                           errors := (case error_msg of
                                        None \<Rightarrow> errors (fst acc)
                                      | Some msg \<Rightarrow> errors (fst acc) @ [(raw_path match, msg)])\<rparr>,
           s')
      | (Inl e, s') \<Rightarrow>
          ((fst acc)\<lparr>failed := failed (fst acc) + 1,
                     errors := errors (fst acc) @ [(raw_path match, ''unexpected error'')]\<rparr>,
           s'))"

definition copy_files ::
    "'s os_ops \<Rightarrow> MatchResult list \<Rightarrow> path \<Rightarrow> 's \<Rightarrow> CopyResult \<times> 's" where
  "copy_files os matches target_dir s =
     (case mkdir os s target_dir of
        (Some e, s') \<Rightarrow>
          (\<lparr>success = 0, skipped = 0, failed = int (length matches),
            errors = [(target_dir, ''target directory creation failed'')]\<rparr>, s')
      | (None, s') \<Rightarrow>
          foldl (copy_step os target_dir)
            (\<lparr>success = 0, skipped = 0, failed = 0, errors = []\<rparr>, s') matches)"

text \<open>
  An operating system for the examples: the state is the list of existing paths, one
  directory cannot be created, every file has 100 bytes, and the disk has room.
\<close>

definition demo_os :: "path list os_ops" where
  "demo_os =
     \<lparr>mkdir = (\<lambda>s d. if d = ''/readonly/out'' then (Some PermissionError, s) else (None, s)),
      exists = (\<lambda>s p. p \<in> set s),
      stat_size = (\<lambda>s p. Inr 100),
      disk_free = (\<lambda>s p. Inr 1000000000),
      copy2 = (\<lambda>s src dst. (None, dst # s))\<rparr>"

definition match_1 :: MatchResult where
  "match_1 = \<lparr>jpeg_path = ''/jpg/IMG_1.JPG'', raw_path = ''/raw/IMG_1.CR2'',
              match_method = ''basename_and_datetime''\<rparr>"

definition match_9 :: MatchResult where
  "match_9 = \<lparr>jpeg_path = ''/jpg/IMG_9.JPG'', raw_path = ''/raw/IMG_9.CR2'',
              match_method = ''basename_only''\<rparr>"

section \<open>Serialization of the index (indexer.py, to_dict and from_dict)\<close>

text \<open>
  The dictionary that \<open>to_dict\<close> builds and \<open>from_dict\<close> reads, with its keys as
  fields. \<open>datetime.isoformat\<close> and \<open>datetime.fromisoformat\<close> belong to the Python
  library and are parameters of the model: \<open>isoformat\<close> yields the text of a time,
  \<open>fromisoformat\<close> the time of a text, or \<open>None\<close> where Python raises \<open>ValueError\<close>.
  \<open>str(Path)\<close> and \<open>Path(str)\<close> are the identity on the string form of a path.
\<close>

record file_data =
  fd_path :: string
  fd_basename :: string
  fd_capture_datetime :: "string option"
  fd_file_size :: int

record index_data =
  d_source_directory :: "string option"
  d_last_updated :: "string option"
  d_file_count :: int
  d_files :: "file_data list"







section \<open>Reading capture times (exif_reader.py)\<close>

text \<open>
  \<open>ExifReader.cache\<close>: the reader remembers the answer it gave for a path for as long
  as it lives, also when the answer was \<open>None\<close> or the read failed. A read that raises
  is caught by its callers and counts as \<open>None\<close>, which is what the model returns.
\<close>

type_synonym exif_cache = "(path \<times> datetime option) list"

text \<open>A read that is not answered from the cache: a missing or empty file has no time.\<close>

definition extract_datetime :: "filesystem \<Rightarrow> path \<Rightarrow> datetime option" where
  "extract_datetime fs file_path =
     (case map_of (files fs) file_path of
        None \<Rightarrow> None
      | Some (st_size, capture) \<Rightarrow> if st_size = 0 then None else capture)"

definition read_capture_datetime ::
    "filesystem \<Rightarrow> exif_cache \<Rightarrow> path \<Rightarrow> datetime option \<times> exif_cache" where
  "read_capture_datetime fs cached file_path =
     (case map_of cached file_path of
        Some answer \<Rightarrow> (answer, cached)
      | None \<Rightarrow> (extract_datetime fs file_path,
                 (file_path, extract_datetime fs file_path) # cached))"

section \<open>Building and updating the index (indexer.py, class Indexer)\<close>

text \<open>
  Python leaves two orders open: the order in which a \<open>set\<close> is iterated and the order
  in which \<open>as_completed\<close> yields the futures of the thread pool. A list of numbers
  picks the order: its head chooses which of the remaining elements comes first. Every
  list of numbers gives an order, and every order is given by some list.
\<close>

fun permute :: "nat list \<Rightarrow> 'a list \<Rightarrow> 'a list" where
  "permute [] xs = xs"
| "permute (k # ks) xs =
     (if xs = [] then []
      else (let i = k mod length xs
            in xs ! i # permute ks (take i xs @ drop (Suc i) xs)))"

record schedule =
  order_deleted :: "nat list"
  order_candidates :: "nat list"
  order_new :: "nat list"
  completion :: "nat list"

text \<open>\<open>file_path.stat().st_size\<close>; \<open>None\<close> when the call raises.\<close>

definition stat_st_size :: "filesystem \<Rightarrow> path \<Rightarrow> int option" where
  "stat_st_size fs file_path = map_option fst (map_of (files fs) file_path)"

definition process_single_file ::
    "filesystem \<Rightarrow> exif_cache \<Rightarrow> path \<Rightarrow> RawFileInfo option \<times> exif_cache" where
  "process_single_file fs cached file_path =
     (case stat_st_size fs file_path of
        None \<Rightarrow> (None, cached)
      | Some st_size \<Rightarrow>
          (let answer = read_capture_datetime fs cached file_path
           in (Some \<lparr>path = file_path, basename = get_basename file_path,
                      capture_datetime = fst answer, file_size = st_size\<rparr>,
               snd answer)))"

text \<open>
  The worker threads share the reader; the files are processed one after the other in
  the order of completion, each read seeing the cache that the earlier reads left.
\<close>

definition process_step ::
    "filesystem \<Rightarrow> RawFileInfo list \<times> exif_cache \<Rightarrow> path \<Rightarrow> RawFileInfo list \<times> exif_cache" where
  "process_step fs acc file_path =
     (case process_single_file fs (snd acc) file_path of
        (None, cached) \<Rightarrow> (fst acc, cached)
      | (Some info, cached) \<Rightarrow> (fst acc @ [info], cached))"

definition process_files_parallel ::
    "filesystem \<Rightarrow> nat list \<Rightarrow> exif_cache \<Rightarrow> path list \<Rightarrow> RawFileInfo list \<times> exif_cache" where
  "process_files_parallel fs completed cached file_paths =
     foldl (process_step fs) ([], cached) (permute completed file_paths)"

definition build_new_index ::
    "filesystem \<Rightarrow> schedule \<Rightarrow> exif_cache \<Rightarrow> path \<Rightarrow> bool
       \<Rightarrow> error + RawFileIndex \<times> exif_cache" where
  "build_new_index fs sched cached source_dir recursive =
     (case scan_raw_files fs source_dir recursive of
        Inl e \<Rightarrow> Inl e
      | Inr raw_files \<Rightarrow>
          if raw_files = [] then Inr (new_index, cached)
          else (let processed = process_files_parallel fs (completion sched) cached raw_files
                in Inr (foldl (\<lambda>index info. add info index) new_index (fst processed),
                        snd processed)))"

text \<open>
  One round of the loop over the files that are on disk and in the index: a file whose
  size differs from the indexed one is removed from the index and noted for
  reprocessing; a failing \<open>stat\<close> is logged and the file is left as it is.
\<close>

definition check_updated ::
    "filesystem \<Rightarrow> RawFileIndex \<times> path list \<Rightarrow> path \<Rightarrow> RawFileIndex \<times> path list" where
  "check_updated fs acc file_path =
     (case stat_st_size fs file_path of
        None \<Rightarrow> acc
      | Some st_size \<Rightarrow>
          (case find (\<lambda>info. path info = file_path) (get_all_files (fst acc)) of
             None \<Rightarrow> acc
           | Some existing_info \<Rightarrow>
               if file_size existing_info \<noteq> st_size
               then (snd (remove_file file_path (fst acc)), snd acc @ [file_path])
               else acc))"

definition update_index_incrementally ::
    "filesystem \<Rightarrow> schedule \<Rightarrow> exif_cache \<Rightarrow> RawFileIndex \<Rightarrow> path \<Rightarrow> bool
       \<Rightarrow> error + RawFileIndex \<times> exif_cache" where
  "update_index_incrementally fs sched cached index source_dir recursive =
     (case scan_raw_files fs source_dir recursive of
        Inl e \<Rightarrow> Inl e
      | Inr scanned \<Rightarrow>
          (let current_files = remdups scanned;
               existing_files = remdups (map path (get_all_files index));
               new_files = filter (\<lambda>p. p \<notin> set existing_files) current_files;
               deleted_files = filter (\<lambda>p. p \<notin> set current_files) existing_files;
               potentially_updated_files = filter (\<lambda>p. p \<in> set existing_files) current_files;
               index1 = foldl (\<lambda>index deleted_file. snd (remove_file deleted_file index)) index
                          (permute (order_deleted sched) deleted_files);
               checked = foldl (check_updated fs) (index1, [])
                           (permute (order_candidates sched) potentially_updated_files);
               files_to_process = permute (order_new sched) new_files @ snd checked
           in if files_to_process = [] then Inr (fst checked, cached)
              else (let processed = process_files_parallel fs (completion sched) cached
                                      files_to_process
                    in Inr (foldl (\<lambda>index info. add info index) (fst checked) (fst processed),
                            snd processed))))"

text \<open>Three states of one directory for the examples.\<close>

definition disk_before :: filesystem where
  "disk_before =
     \<lparr>readable_dirs = [''/raw''],
      files = [(''/raw/a.cr2'', 100, Some 1), (''/raw/b.cr2'', 200, Some 2),
               (''/raw/c.nef'', 300, None), (''/raw/notes.txt'', 5, None)]\<rparr>"

definition disk_after :: filesystem where
  "disk_after =
     \<lparr>readable_dirs = [''/raw''],
      files = [(''/raw/a.cr2'', 100, Some 1), (''/raw/b.cr2'', 250, Some 7),
               (''/raw/d.dng'', 400, Some 4), (''/raw/notes.txt'', 5, None)]\<rparr>"

definition disk_edited :: filesystem where
  "disk_edited =
     \<lparr>readable_dirs = [''/raw''],
      files = [(''/raw/a.cr2'', 100, Some 9), (''/raw/b.cr2'', 200, Some 2),
               (''/raw/c.nef'', 300, None), (''/raw/notes.txt'', 5, None)]\<rparr>"

definition some_order :: schedule where
  "some_order = \<lparr>order_deleted = [1], order_candidates = [1, 0], order_new = [],
                  completion = [2, 0]\<rparr>"

text \<open>
  What a reader with a given cache answers for a path, and the records that processing
  the files of a set of paths with that reader yields.
\<close>

definition reading :: "filesystem \<Rightarrow> exif_cache \<Rightarrow> path \<Rightarrow> datetime option" where
  "reading fs cached p = fst (read_capture_datetime fs cached p)"

definition records_of :: "filesystem \<Rightarrow> exif_cache \<Rightarrow> path set \<Rightarrow> RawFileInfo set" where
  "records_of fs cached paths =
     {r. \<exists>p\<in>paths. \<exists>st. stat_st_size fs p = Some st \<and>
           r = \<lparr>path = p, basename = get_basename p,
                 capture_datetime = reading fs cached p, file_size = st\<rparr>}"



section \<open>The cache and the top-level build (indexer.py, IndexCache and Indexer.build_index)\<close>

text \<open>
  The cache directory: for a source directory the parsed content of its cache file
  (\<open>None\<close> for a file that does not parse), and whether cache files can be written.
  The manifest \<open>global_index.json\<close> is left out: \<open>_update_global_index\<close> catches its
  own errors and does not touch the index.
\<close>

record cache_state =
  cache_files :: "(path \<times> index_data option) list"
  cache_writable :: bool

text \<open>
  What a call of \<open>build_index\<close> finds: the disk, the cache directory, the time, the
  orders that the run will take, and the memory of the indexer's reader.
\<close>

record world =
  disk :: filesystem
  cache :: cache_state
  clock :: datetime
  orders :: schedule
  reader :: exif_cache







section \<open>Properties of the dictionary operations\<close>

lemma length_filter_less_iff:
  "length (filter P xs) < length xs \<longleftrightarrow> (\<exists>x\<in>set xs. \<not> P x)"
  by (induction xs) (auto simp: less_Suc_eq_le)

lemma dict_append_keys: "fst ` set (dict_append k v d) = insert k (fst ` set d)"
  by (induction k v d rule: dict_append.induct) auto

lemma dict_append_distinct:
  "distinct (map fst d) \<Longrightarrow> distinct (map fst (dict_append k v d))"
  by (induction k v d rule: dict_append.induct) (auto simp: dict_append_keys)

lemma dict_append_nonempty:
  "[] \<notin> set (map snd d) \<Longrightarrow> [] \<notin> set (map snd (dict_append k v d))"
  by (induction k v d rule: dict_append.induct) auto

lemma dict_get_append:
  "dict_get (dict_append k v d) k' = (if k' = k then dict_get d k @ [v] else dict_get d k')"
  by (induction k v d rule: dict_append.induct) (auto simp: dict_get_def)

lemma values_dict_append:
  "set (concat (map snd (dict_append k v d))) = insert v (set (concat (map snd d)))"
  by (induction k v d rule: dict_append.induct) auto

lemma remove_from_keys: "set (map fst (fst (remove_from p d))) \<subseteq> set (map fst d)"
  by (induction p d rule: remove_from.induct) (auto simp: Let_def)

lemma remove_from_distinct:
  "distinct (map fst d) \<Longrightarrow> distinct (map fst (fst (remove_from p d)))"
proof (induction p d rule: remove_from.induct)
  case (1 p)
  show ?case by simp
next
  case (2 p k infos d)
  have "k \<notin> set (map fst (fst (remove_from p d)))"
    using remove_from_keys[of p d] "2.prems" by auto
  with 2 show ?case by (auto simp: Let_def)
qed

lemma remove_from_nonempty:
  "[] \<notin> set (map snd d) \<Longrightarrow> [] \<notin> set (map snd (fst (remove_from p d)))"
  by (induction p d rule: remove_from.induct) (auto simp: Let_def length_filter_less_iff)

lemma remove_from_flag:
  "snd (remove_from p d) \<longleftrightarrow> (\<exists>r\<in>set (concat (map snd d)). path r = p)"
  by (induction p d rule: remove_from.induct) (auto simp: Let_def length_filter_less_iff)

lemma values_remove_from:
  "set (concat (map snd (fst (remove_from p d)))) = {r \<in> set (concat (map snd d)). path r \<noteq> p}"
  by (induction p d rule: remove_from.induct) (auto simp: Let_def filter_empty_conv)

lemma dict_get_absent: "k \<notin> set (map fst d) \<Longrightarrow> dict_get d k = []"
  by (induction d) (auto simp: dict_get_def)

lemma dict_get_remove_from:
  "distinct (map fst d) \<Longrightarrow>
   dict_get (fst (remove_from p d)) k = filter (\<lambda>r. path r \<noteq> p) (dict_get d k)"
proof (induction p d rule: remove_from.induct)
  case (1 p)
  show ?case by (simp add: dict_get_def)
next
  case (2 p k' infos d)
  have absent: "k' \<notin> set (map fst (fst (remove_from p d)))"
    using remove_from_keys[of p d] "2.prems" by auto
  show ?case
  proof (cases "k = k'")
    case True
    with absent have "dict_get (fst (remove_from p d)) k = []" by (simp add: dict_get_absent)
    with True show ?thesis by (auto simp: Let_def dict_get_def)
  next
    case False
    with 2 show ?thesis by (auto simp: Let_def dict_get_def)
  qed
qed

lemma buckets_ok_append:
  assumes "buckets_ok d"
  shows "buckets_ok (dict_append k v d)"
proof -
  from assms have "distinct (map fst d)" and "[] \<notin> set (map snd d)"
    unfolding buckets_ok_def by simp_all
  then show ?thesis
    unfolding buckets_ok_def by (intro conjI dict_append_distinct dict_append_nonempty)
qed

lemma buckets_ok_remove:
  assumes "buckets_ok d"
  shows "buckets_ok (fst (remove_from p d))"
proof -
  from assms have "distinct (map fst d)" and "[] \<notin> set (map snd d)"
    unfolding buckets_ok_def by simp_all
  then show ?thesis
    unfolding buckets_ok_def by (intro conjI remove_from_distinct remove_from_nonempty)
qed

lemma buckets_ok_lookup:
  assumes "buckets_ok d" and "map_of d k = Some vs"
  shows "vs \<noteq> []"
proof
  assume "vs = []"
  with assms(2) have "(k, []) \<in> set d" by (simp add: map_of_SomeD)
  then have "snd (k, []) \<in> snd ` set d" by (rule imageI)
  with assms(1) show False unfolding buckets_ok_def by simp
qed

section \<open>Invariants of the index\<close>

lemma buckets_ok_apply_op:
  assumes "buckets_ok (by_basename index)" and "buckets_ok (by_datetime index)"
  shows "buckets_ok (by_basename (apply_op index op)) \<and> buckets_ok (by_datetime (apply_op index op))"
proof (cases op)
  case (Add info)
  with assms show ?thesis
    by (cases "capture_datetime info") (simp_all add: add_def buckets_ok_append)
next
  case (Remove p)
  with assms show ?thesis
    by (simp add: remove_file_def Let_def buckets_ok_remove)
qed

lemma buckets_ok_foldl:
  "buckets_ok (by_basename index) \<Longrightarrow> buckets_ok (by_datetime index) \<Longrightarrow>
   buckets_ok (by_basename (foldl apply_op index ops)) \<and>
   buckets_ok (by_datetime (foldl apply_op index ops))"
proof (induction ops arbitrary: index)
  case Nil
  then show ?case by simp
next
  case (Cons op ops)
  from buckets_ok_apply_op[OF Cons.prems, of op] Cons.IH[of "apply_op index op"]
  show ?case by simp
qed

lemma buckets_ok_run_ops:
  "buckets_ok (by_basename (run_ops ops)) \<and> buckets_ok (by_datetime (run_ops ops))"
  unfolding run_ops_def by (rule buckets_ok_foldl) (simp_all add: new_index_def buckets_ok_def)

text \<open>
  C9, no empty bucket: after any sequence of \<open>add\<close> and \<open>remove\<close> calls on an index
  that starts empty, a lookup of a key in \<open>by_basename\<close> or in \<open>by_datetime\<close> that finds
  the key finds a non-empty list of records.
\<close>

theorem no_empty_bucket:
  "(\<forall>k vs. map_of (by_basename (run_ops ops)) k = Some vs \<longrightarrow> vs \<noteq> []) \<and>
   (\<forall>t vs. map_of (by_datetime (run_ops ops)) t = Some vs \<longrightarrow> vs \<noteq> [])"
proof (intro conjI allI impI)
  fix k vs assume "map_of (by_basename (run_ops ops)) k = Some vs"
  then show "vs \<noteq> []"
    by (rule buckets_ok_lookup[OF conjunct1[OF buckets_ok_run_ops]])
next
  fix t vs assume "map_of (by_datetime (run_ops ops)) t = Some vs"
  then show "vs \<noteq> []"
    by (rule buckets_ok_lookup[OF conjunct2[OF buckets_ok_run_ops]])
qed

lemma run_ops_example:
  "run_ops [Add dup_a, Add other_c, Remove ''/raw/IMG_1.CR2''] =
   \<lparr>by_basename = [(''img_2'', [other_c])], by_datetime = [(200, [other_c])],
    source_directory = None, last_updated = None, file_count = 1\<rparr>"
  by (simp add: run_ops_def new_index_def add_def remove_file_def Let_def
      dup_a_def other_c_def)

theorem no_empty_bucket_witness:
  "map_of (by_basename (run_ops [Add dup_a, Add other_c, Remove ''/raw/IMG_1.CR2''])) ''img_2''
     = Some [other_c] \<and> [other_c] \<noteq> [] \<and>
   map_of (by_basename (run_ops [Add dup_a, Add other_c, Remove ''/raw/IMG_1.CR2''])) ''img_1''
     = None \<and>
   map_of (by_datetime (run_ops [Add dup_a, Add other_c, Remove ''/raw/IMG_1.CR2''])) 200
     = Some [other_c]"
  using no_empty_bucket[of "[Add dup_a, Add other_c, Remove ''/raw/IMG_1.CR2'']"]
  by (simp add: run_ops_example)

text \<open>
  C5, remove semantics: \<open>remove(p)\<close> deletes every record whose path is \<open>p\<close> and
  returns whether it deleted one, but the count goes down by one, not by the number of
  records deleted. On an index holding two records of the same path, \<open>remove\<close> of that
  path returns true and leaves no record, and \<open>file_count\<close> goes from 2 to 1.
\<close>

theorem remove_duplicates_count:
  "file_count (run_ops [Add dup_a, Add dup_b]) = 2 \<and>
   length (get_all_files (run_ops [Add dup_a, Add dup_b])) = 2 \<and>
   fst (remove_file ''/raw/IMG_1.CR2'' (run_ops [Add dup_a, Add dup_b])) \<and>
   get_all_files (snd (remove_file ''/raw/IMG_1.CR2'' (run_ops [Add dup_a, Add dup_b]))) = [] \<and>
   by_datetime (snd (remove_file ''/raw/IMG_1.CR2'' (run_ops [Add dup_a, Add dup_b]))) = [] \<and>
   file_count (snd (remove_file ''/raw/IMG_1.CR2'' (run_ops [Add dup_a, Add dup_b]))) = 1"
  by (simp add: run_ops_def new_index_def add_def remove_file_def Let_def get_all_files_def
      dup_a_def dup_b_def)

text \<open>
  C8, add/remove inverse: adding the records of a sequence and then removing every
  added path empties both lookup maps, but when two records of the sequence share a
  path the count does not return to 0: after adding both and removing the path
  (once, or once for each record) \<open>file_count\<close> is 1.
\<close>

theorem add_remove_duplicates_count:
  "by_basename (run_ops [Add dup_a, Add dup_b, Remove (path dup_a), Remove (path dup_b)]) = [] \<and>
   by_datetime (run_ops [Add dup_a, Add dup_b, Remove (path dup_a), Remove (path dup_b)]) = [] \<and>
   file_count (run_ops [Add dup_a, Add dup_b, Remove (path dup_a), Remove (path dup_b)]) = 1 \<and>
   file_count (run_ops [Add dup_a, Add dup_b, Remove (path dup_a)]) = 1"
  by (simp add: run_ops_def new_index_def add_def remove_file_def Let_def
      dup_a_def dup_b_def)

section \<open>The index refines the list of live records\<close>

lemma refines_apply_op:
  assumes "refines index rs"
  shows "refines (apply_op index op) (live_step rs op)"
proof (cases op)
  case (Add info)
  from assms have ok: "buckets_ok (by_basename index)"
    and get: "\<And>k. dict_get (by_basename index) k = filter (\<lambda>r. basename r = k) rs"
    unfolding refines_def by simp_all
  show ?thesis
    unfolding refines_def Add
    by (simp add: add_def buckets_ok_append[OF ok] dict_get_append get)
next
  case (Remove p)
  from assms have ok: "buckets_ok (by_basename index)"
    and get: "\<And>k. dict_get (by_basename index) k = filter (\<lambda>r. basename r = k) rs"
    unfolding refines_def by simp_all
  from ok have dist: "distinct (map fst (by_basename index))"
    unfolding buckets_ok_def by simp
  show ?thesis
    unfolding refines_def Remove
    by (simp add: remove_file_def Let_def buckets_ok_remove[OF ok]
        dict_get_remove_from[OF dist] get conj_commute)
qed

lemma refines_foldl:
  "refines index rs \<Longrightarrow> refines (foldl apply_op index ops) (foldl live_step rs ops)"
  by (induction ops arbitrary: index rs) (simp_all add: refines_apply_op)

lemma refines_run_ops: "refines (run_ops ops) (live_records ops)"
  unfolding run_ops_def live_records_def
  by (rule refines_foldl) (simp add: refines_def new_index_def buckets_ok_def dict_get_def)

lemma find_by_basename_run_ops:
  "find_by_basename (run_ops ops) name = filter (\<lambda>r. basename r = lower name) (live_records ops)"
  using refines_run_ops[of ops] unfolding refines_def find_by_basename_def by simp

lemma get_all_files_add: "set (get_all_files (add info index)) = insert info (set (get_all_files index))"
  by (simp add: get_all_files_def add_def values_dict_append del: set_concat)

lemma get_all_files_remove:
  "set (get_all_files (snd (remove_file p index))) = {r \<in> set (get_all_files index). path r \<noteq> p}"
  by (simp add: get_all_files_def remove_file_def Let_def values_remove_from del: set_concat)

lemma records_apply_op:
  "set (get_all_files index) = set rs \<Longrightarrow>
   set (get_all_files (apply_op index op)) = set (live_step rs op)"
  by (cases op) (auto simp: get_all_files_add get_all_files_remove)

lemma records_foldl:
  "set (get_all_files index) = set rs \<Longrightarrow>
   set (get_all_files (foldl apply_op index ops)) = set (foldl live_step rs ops)"
  by (induction ops arbitrary: index rs) (simp_all add: records_apply_op)

lemma records_run_ops: "set (get_all_files (run_ops ops)) = set (live_records ops)"
  unfolding run_ops_def live_records_def
  by (rule records_foldl) (simp add: get_all_files_def new_index_def)

lemma exact_filter:
  "filter (\<lambda>raw_info. capture_datetime raw_info \<noteq> None \<and> capture_datetime raw_info = Some dt) rs
   = filter (\<lambda>raw_info. capture_datetime raw_info = Some dt) rs"
  by (rule filter_cong) auto

lemma find_matching_raw_dated:
  assumes "jcapture_datetime j = Some t"
  shows "find_matching_raw index j =
           (case filter (\<lambda>r. capture_datetime r = Some t) (find_by_basename index (jbasename j)) of
              [] \<Rightarrow> None
            | r # _ \<Rightarrow> Some \<lparr>jpeg_path = jpath j, raw_path = path r,
                              match_method = ''basename_and_datetime''\<rparr>)"
proof (cases "find_by_basename index (jbasename j)")
  case Nil
  then show ?thesis by (simp add: find_matching_raw_def)
next
  case (Cons c cs)
  show ?thesis
    unfolding find_matching_raw_def Let_def exact_filter
    by (simp only: Cons assms list.case option.case)
qed

text \<open>
  C2, exact-timestamp strictness: for a JPEG record that has a capture timestamp (and a
  lower-case basename, as every \<open>JpegFileInfo\<close> has), the matcher returns a match of
  method \<open>basename_and_datetime\<close> if and only if some indexed record has the JPEG's
  basename and exactly its timestamp; when no candidate has that timestamp the result is
  no match, and the result is never a \<open>basename_only\<close> match.
\<close>

theorem exact_timestamp_strictness:
  assumes "jcapture_datetime j = Some t" and "lower (jbasename j) = jbasename j"
  shows "((\<exists>m. find_matching_raw (run_ops ops) j = Some m \<and>
               match_method m = ''basename_and_datetime'') \<longleftrightarrow>
          (\<exists>r\<in>set (get_all_files (run_ops ops)).
               basename r = jbasename j \<and> capture_datetime r = Some t)) \<and>
         ((\<forall>r\<in>set (get_all_files (run_ops ops)).
               basename r = jbasename j \<longrightarrow> capture_datetime r \<noteq> Some t) \<longrightarrow>
          find_matching_raw (run_ops ops) j = None) \<and>
         (\<forall>m. find_matching_raw (run_ops ops) j = Some m \<longrightarrow>
               match_method m \<noteq> ''basename_only'')"
proof -
  let ?exact = "filter (\<lambda>r. capture_datetime r = Some t)
                  (filter (\<lambda>r. basename r = jbasename j) (live_records ops))"
  have res: "find_matching_raw (run_ops ops) j =
           (case ?exact of
              [] \<Rightarrow> None
            | r # _ \<Rightarrow> Some \<lparr>jpeg_path = jpath j, raw_path = path r,
                              match_method = ''basename_and_datetime''\<rparr>)"
    by (simp only: find_matching_raw_dated[OF assms(1)] find_by_basename_run_ops assms(2))
  have ex: "(\<exists>r\<in>set (get_all_files (run_ops ops)).
               basename r = jbasename j \<and> capture_datetime r = Some t) \<longleftrightarrow> ?exact \<noteq> []"
    by (auto simp: records_run_ops filter_empty_conv)
  show ?thesis
  proof (cases ?exact)
    case Nil
    with res have "find_matching_raw (run_ops ops) j = None" by simp
    moreover from Nil ex have "\<not> (\<exists>r\<in>set (get_all_files (run_ops ops)).
               basename r = jbasename j \<and> capture_datetime r = Some t)" by simp
    ultimately show ?thesis by simp
  next
    case (Cons r rest)
    with res have "find_matching_raw (run_ops ops) j =
            Some \<lparr>jpeg_path = jpath j, raw_path = path r,
                  match_method = ''basename_and_datetime''\<rparr>" by simp
    moreover from Cons ex have "\<exists>r\<in>set (get_all_files (run_ops ops)).
               basename r = jbasename j \<and> capture_datetime r = Some t" by simp
    ultimately show ?thesis by auto
  qed
qed

text \<open>
  C6, basename-only fallback: for a JPEG record without capture timestamp (and with a
  lower-case basename), the matcher returns no match when no live record has the JPEG's
  basename, and otherwise a \<open>basename_only\<close> match whose RAW path is that of the first
  such record in insertion order.
\<close>

theorem basename_only_fallback:
  assumes "jcapture_datetime j = None" and "lower (jbasename j) = jbasename j"
  shows "find_matching_raw (run_ops ops) j =
           (case filter (\<lambda>r. basename r = jbasename j) (live_records ops) of
              [] \<Rightarrow> None
            | r # _ \<Rightarrow> Some \<lparr>jpeg_path = jpath j, raw_path = path r,
                              match_method = ''basename_only''\<rparr>)"
  by (simp add: find_matching_raw_def find_by_basename_run_ops assms Let_def split: list.split)

lemma lower_img_1: "lower ''img_1'' = ''img_1''"
  by (simp add: lower_def lower_char_def)

lemma run_ops_three:
  "run_ops [Add dup_b, Add dup_a, Add other_c] =
   \<lparr>by_basename = [(''img_1'', [dup_b, dup_a]), (''img_2'', [other_c])],
    by_datetime = [(100, [dup_a]), (200, [other_c])],
    source_directory = None, last_updated = None, file_count = 3\<rparr>"
  by (simp add: run_ops_def new_index_def add_def dup_a_def dup_b_def other_c_def)

theorem exact_timestamp_strictness_witness:
  "jcapture_datetime jpeg_exact = Some 100 \<and> lower (jbasename jpeg_exact) = jbasename jpeg_exact \<and>
   find_matching_raw (run_ops [Add dup_b, Add dup_a, Add other_c]) jpeg_exact =
     Some \<lparr>jpeg_path = ''/jpg/IMG_1.JPG'', raw_path = ''/raw/IMG_1.CR2'',
           match_method = ''basename_and_datetime''\<rparr> \<and>
   (\<exists>r\<in>set (get_all_files (run_ops [Add dup_b, Add dup_a, Add other_c])).
       basename r = jbasename jpeg_exact \<and> capture_datetime r = Some 100) \<and>
   jcapture_datetime jpeg_off = Some 101 \<and> lower (jbasename jpeg_off) = jbasename jpeg_off \<and>
   find_matching_raw (run_ops [Add dup_b, Add dup_a, Add other_c]) jpeg_off = None"
  using exact_timestamp_strictness[of jpeg_exact 100 "[Add dup_b, Add dup_a, Add other_c]"]
    exact_timestamp_strictness[of jpeg_off 101 "[Add dup_b, Add dup_a, Add other_c]"]
  unfolding run_ops_three
  by (simp add: lower_img_1 jpeg_exact_def jpeg_off_def find_matching_raw_def
      find_by_basename_def dict_get_def get_all_files_def dup_a_def dup_b_def other_c_def)

theorem basename_only_fallback_witness:
  "jcapture_datetime jpeg_undated = None \<and> lower (jbasename jpeg_undated) = jbasename jpeg_undated \<and>
   live_records [Add other_c, Add dup_b, Add dup_a] = [other_c, dup_b, dup_a] \<and>
   find_matching_raw (run_ops [Add other_c, Add dup_b, Add dup_a]) jpeg_undated =
     Some \<lparr>jpeg_path = ''/jpg/IMG_1.JPG'', raw_path = path dup_b, match_method = ''basename_only''\<rparr>"
  using basename_only_fallback[of jpeg_undated "[Add other_c, Add dup_b, Add dup_a]"]
  by (simp add: lower_img_1 jpeg_undated_def live_records_def dup_a_def dup_b_def other_c_def)

lemma suffix_examples:
  "path_suffix ''/d/test.cr2'' = ''.cr2''" "path_suffix ''/d/test.Cr2'' = ''.Cr2''"
  "path_suffix ''/d/test.Jpg'' = ''.Jpg''" "path_suffix ''/d/test.JPG'' = ''.JPG''"
  by (simp_all add: path_suffix_def path_name_def)

text \<open>
  C7, as stated, fails: \<open>test.cr2\<close> and \<open>test.Cr2\<close> differ only in the letter case of
  the extension, and the first is a RAW file while the second is not; likewise
  \<open>test.JPG\<close> and \<open>test.Jpg\<close>. A scan of a directory that holds all four files finds
  one RAW file and one JPEG file.
\<close>

theorem mixed_case_extension_rejected:
  "lower (path_suffix ''/d/test.cr2'') = lower (path_suffix ''/d/test.Cr2'') \<and>
   is_raw_file ''/d/test.cr2'' \<and> \<not> is_raw_file ''/d/test.Cr2'' \<and>
   lower (path_suffix ''/d/test.JPG'') = lower (path_suffix ''/d/test.Jpg'') \<and>
   is_jpeg_file ''/d/test.JPG'' \<and> \<not> is_jpeg_file ''/d/test.Jpg'' \<and>
   scan_raw_files mixed_case_dir ''/d'' True = Inr [''/d/test.cr2''] \<and>
   scan_jpeg_files mixed_case_dir ''/d'' True = Inr [''/d/test.JPG'']"
  by (simp add: suffix_examples is_raw_file_def is_jpeg_file_def RAW_EXTENSIONS_def
      JPEG_EXTENSIONS_def lower_def lower_char_def scan_raw_files_def scan_jpeg_files_def
      scan_files_def validate_directory_def mixed_case_dir_def rglob_files_def is_below_def)

lemma set_scan_files:
  "directory \<in> set (readable_dirs fs) \<Longrightarrow>
   \<exists>found. scan_files extensions fs directory recursive = Inr found \<and>
     set found = {p \<in> set (if recursive then rglob_files fs directory
                              else iterdir_files fs directory).
                   path_suffix p \<in> set extensions}"
  by (simp add: scan_files_def validate_directory_def)

lemma raw_spellings:
  "set RAW_EXTENSIONS =
     (\<lambda>e. CHR ''.'' # e) ` set raw_extension_names \<union>
     (\<lambda>e. CHR ''.'' # upper e) ` set raw_extension_names"
  by (simp add: RAW_EXTENSIONS_def raw_extension_names_def upper_def upper_char_def
      insert_commute)

lemma jpeg_spellings:
  "set JPEG_EXTENSIONS =
     (\<lambda>e. CHR ''.'' # e) ` set jpeg_extension_names \<union>
     (\<lambda>e. CHR ''.'' # upper e) ` set jpeg_extension_names"
  by (simp add: JPEG_EXTENSIONS_def jpeg_extension_names_def upper_def upper_char_def
      insert_commute)

text \<open>
  C7, amended: a path is classified as RAW (as JPEG) exactly when its suffix is a dot
  followed by one of the listed extensions written all in lower case or all in upper
  case; a scan of a readable directory returns exactly the files of the walk that are
  so classified. Mixed-case spellings are not accepted.
\<close>

theorem extension_classification:
  "(is_raw_file p \<longleftrightarrow>
      (\<exists>e\<in>set raw_extension_names.
          path_suffix p = CHR ''.'' # e \<or> path_suffix p = CHR ''.'' # upper e)) \<and>
   (is_jpeg_file p \<longleftrightarrow>
      (\<exists>e\<in>set jpeg_extension_names.
          path_suffix p = CHR ''.'' # e \<or> path_suffix p = CHR ''.'' # upper e)) \<and>
   (directory \<in> set (readable_dirs fs) \<longrightarrow>
      (\<exists>found. scan_raw_files fs directory recursive = Inr found \<and>
         set found = {p \<in> set (if recursive then rglob_files fs directory
                                  else iterdir_files fs directory). is_raw_file p}) \<and>
      (\<exists>found. scan_jpeg_files fs directory recursive = Inr found \<and>
         set found = {p \<in> set (if recursive then rglob_files fs directory
                                  else iterdir_files fs directory). is_jpeg_file p}))"
proof (intro conjI impI)
  show "is_raw_file p \<longleftrightarrow>
      (\<exists>e\<in>set raw_extension_names.
          path_suffix p = CHR ''.'' # e \<or> path_suffix p = CHR ''.'' # upper e)"
    unfolding is_raw_file_def raw_spellings by blast
  show "is_jpeg_file p \<longleftrightarrow>
      (\<exists>e\<in>set jpeg_extension_names.
          path_suffix p = CHR ''.'' # e \<or> path_suffix p = CHR ''.'' # upper e)"
    unfolding is_jpeg_file_def jpeg_spellings by blast
next
  assume "directory \<in> set (readable_dirs fs)"
  then show "\<exists>found. scan_raw_files fs directory recursive = Inr found \<and>
         set found = {p \<in> set (if recursive then rglob_files fs directory
                                  else iterdir_files fs directory). is_raw_file p}"
    unfolding scan_raw_files_def is_raw_file_def by (rule set_scan_files)
next
  assume "directory \<in> set (readable_dirs fs)"
  then show "\<exists>found. scan_jpeg_files fs directory recursive = Inr found \<and>
         set found = {p \<in> set (if recursive then rglob_files fs directory
                                  else iterdir_files fs directory). is_jpeg_file p}"
    unfolding scan_jpeg_files_def is_jpeg_file_def by (rule set_scan_files)
qed

theorem extension_classification_witness:
  "''cr2'' \<in> set raw_extension_names \<and>
   path_suffix ''/d/test.CR2'' = CHR ''.'' # upper ''cr2'' \<and> is_raw_file ''/d/test.CR2'' \<and>
   ''/d'' \<in> set (readable_dirs mixed_case_dir) \<and>
   (\<exists>found. scan_raw_files mixed_case_dir ''/d'' True = Inr found \<and>
      set found = {p \<in> set (rglob_files mixed_case_dir ''/d''). is_raw_file p})"
proof -
  have dir: "''/d'' \<in> set (readable_dirs mixed_case_dir)"
    by (simp add: mixed_case_dir_def)
  have ext: "''cr2'' \<in> set raw_extension_names"
    by (simp add: raw_extension_names_def)
  have suf: "path_suffix ''/d/test.CR2'' = CHR ''.'' # upper ''cr2''"
    by (simp add: path_suffix_def path_name_def upper_def upper_char_def)
  from extension_classification[of "''/d/test.CR2''" "''/d''" mixed_case_dir True] dir ext suf
  show ?thesis by auto
qed

section \<open>Copy outcomes\<close>




lemma copy_files_demo:
  "fst (copy_files demo_os [match_1, match_1, match_9] ''/out'' [''/raw/IMG_1.CR2'']) =
     \<lparr>success = 1, skipped = 1, failed = 1,
      errors = [(''/raw/IMG_9.CR2'', ''source file does not exist'')]\<rparr>"
  by (simp add: copy_files_def copy_step_def copy_single_file_with_error_def
      check_disk_space_def demo_os_def match_1_def match_9_def path_name_def)


section \<open>Serialization round trip\<close>













section \<open>Differential update\<close>








lemma records_of_path: "r \<in> records_of fs c S \<Longrightarrow> path r \<in> S"
  by (auto simp: records_of_def)


























text \<open>
  The update compares sizes only: with readers that start empty, a file whose content
  changes while its size stays the same keeps its old record, and a full build reads the
  new capture time.
\<close>

lemma same_size_edit_is_missed:
  "(case build_new_index disk_before some_order [] ''/raw'' True of
      Inl e \<Rightarrow> Inl e
    | Inr (built, c1) \<Rightarrow>
        (case update_index_incrementally disk_edited some_order [] built ''/raw'' True of
           Inl e \<Rightarrow> Inl e
         | Inr (updated, c2) \<Rightarrow>
             Inr (find (\<lambda>r. path r = ''/raw/a.cr2'') (get_all_files updated))))
   = Inr (Some \<lparr>path = ''/raw/a.cr2'', basename = ''a'', capture_datetime = Some 1,
                 file_size = 100\<rparr>) \<and>
   (case build_new_index disk_edited some_order [] ''/raw'' True of
      Inl e \<Rightarrow> Inl e
    | Inr (rebuilt, c3) \<Rightarrow> Inr (find (\<lambda>r. path r = ''/raw/a.cr2'') (get_all_files rebuilt)))
   = Inr (Some \<lparr>path = ''/raw/a.cr2'', basename = ''a'', capture_datetime = Some 9,
                 file_size = 100\<rparr>)"
  by code_simp

text \<open>
  The reader answers from its memory: an indexer that built the index and then updates
  it gives a file whose size changed its new size and the capture time read at the
  build, where an indexer that starts on the second state reads the new capture time.
\<close>

lemma changed_file_read_from_memory:
  "(case build_new_index disk_before some_order [] ''/raw'' True of
      Inl e \<Rightarrow> Inl e
    | Inr (built, c1) \<Rightarrow>
        (case update_index_incrementally disk_after some_order c1 built ''/raw'' True of
           Inl e \<Rightarrow> Inl e
         | Inr (updated, c2) \<Rightarrow>
             Inr (find (\<lambda>r. path r = ''/raw/b.cr2'') (get_all_files updated))))
   = Inr (Some \<lparr>path = ''/raw/b.cr2'', basename = ''b'', capture_datetime = Some 2,
                 file_size = 250\<rparr>) \<and>
   (case build_new_index disk_after some_order [] ''/raw'' True of
      Inl e \<Rightarrow> Inl e
    | Inr (rebuilt, c3) \<Rightarrow> Inr (find (\<lambda>r. path r = ''/raw/b.cr2'') (get_all_files rebuilt)))
   = Inr (Some \<lparr>path = ''/raw/b.cr2'', basename = ''b'', capture_datetime = Some 7,
                 file_size = 250\<rparr>)"
  by code_simp

section \<open>Failure of the cache write\<close>





end
